theory Spec2Isabelle
  imports Main "HOL-Library.Sublist"
begin

section \<open>Shared types (src/src/shared/types.ts)\<close>

text \<open>
  The interfaces of \<^verbatim>\<open>types.ts\<close> as records, its string-literal unions as datatypes.
  JavaScript numbers that hold counts and millisecond timestamps are modelled as \<open>int\<close>;
  an optional field \<^verbatim>\<open>f?: T\<close> is a field of type \<open>T option\<close>, \<open>None\<close> standing for
  an absent (\<^verbatim>\<open>undefined\<close>) field. The fields \<^verbatim>\<open>id\<close> and \<^verbatim>\<open>notes\<close> of
  \<^verbatim>\<open>Site\<close> are written \<open>id'\<close> and \<open>notes'\<close>: the first is the identity function of
  HOL, the second a keyword of Isabelle.
\<close>

record Site =
  id' :: string
  url :: string
  title :: string
  favicon :: "string option"
  notes' :: "string option"
  tags :: "string list option"
  createdAt :: int
  lastVisitedAt :: "int option"
  visitCount :: int

record ReminderConfig =
  enabled :: bool
  times :: "string list"

datatype Theme = Light | Dark | System

record Settings =
  theme :: Theme
  reminder :: ReminderConfig
  autoDetectVisits :: bool
  notificationsEnabled :: bool

datatype MessageType =
    SAVE_SITE
  | GET_SITES
  | UPDATE_SITE
  | DELETE_SITE
  | MARK_VISITED
  | MARK_CHECKED_IN
  | SITE_VISITED
  | CHECK_URL_MATCH
  | GET_SETTINGS
  | UPDATE_SETTINGS
  | CLEAR_ALL_SITES
  | RESET_ALL_STATUS
  | NOTIFICATION_ACTION
  | OPEN_POPUP

text \<open>The string literal that each member of the union \<^verbatim>\<open>MessageType\<close> is in the source.\<close>

fun MessageType_literal :: "MessageType \<Rightarrow> string" where
  "MessageType_literal SAVE_SITE = ''SAVE_SITE''"
| "MessageType_literal GET_SITES = ''GET_SITES''"
| "MessageType_literal UPDATE_SITE = ''UPDATE_SITE''"
| "MessageType_literal DELETE_SITE = ''DELETE_SITE''"
| "MessageType_literal MARK_VISITED = ''MARK_VISITED''"
| "MessageType_literal MARK_CHECKED_IN = ''MARK_CHECKED_IN''"
| "MessageType_literal SITE_VISITED = ''SITE_VISITED''"
| "MessageType_literal CHECK_URL_MATCH = ''CHECK_URL_MATCH''"
| "MessageType_literal GET_SETTINGS = ''GET_SETTINGS''"
| "MessageType_literal UPDATE_SETTINGS = ''UPDATE_SETTINGS''"
| "MessageType_literal CLEAR_ALL_SITES = ''CLEAR_ALL_SITES''"
| "MessageType_literal RESET_ALL_STATUS = ''RESET_ALL_STATUS''"
| "MessageType_literal NOTIFICATION_ACTION = ''NOTIFICATION_ACTION''"
| "MessageType_literal OPEN_POPUP = ''OPEN_POPUP''"

text \<open>The members of the union, in the order of the source (lines 62 to 76).\<close>

definition MessageType_members :: "MessageType list" where
  "MessageType_members =
     [SAVE_SITE, GET_SITES, UPDATE_SITE, DELETE_SITE, MARK_VISITED, MARK_CHECKED_IN,
      SITE_VISITED, CHECK_URL_MATCH, GET_SETTINGS, UPDATE_SETTINGS, CLEAR_ALL_SITES,
      RESET_ALL_STATUS, NOTIFICATION_ACTION, OPEN_POPUP]"

record SiteVisitedPayload =
  visit_url :: string
  visit_title :: string
  timestamp :: int

record UrlMatchResult =
  matched :: bool
  siteId :: "string option"
  siteName :: "string option"
  alreadyVisitedToday :: "bool option"

text \<open>
  A message is \<^verbatim>\<open>{ type, payload? }\<close>. The payloads that the code under study builds are
  \<^verbatim>\<open>{ url }\<close> (for \<^verbatim>\<open>CHECK_URL_MATCH\<close>), a \<^verbatim>\<open>SiteVisitedPayload\<close>, and \<^verbatim>\<open>{ url, title }\<close>
  (for \<^verbatim>\<open>SAVE_SITE\<close>, in the usage examples of docs/messaging.md).
\<close>

datatype Payload =
    UrlPayload string
  | VisitPayload SiteVisitedPayload
  | AddSitePayload string string

record Message =
  type :: MessageType
  payload :: "Payload option"

text \<open>
  A response is \<^verbatim>\<open>{ success, data?, error? }\<close>. The interface is generic in the type of
  \<open>data\<close>; at run time the content script casts whatever arrives
  (\<^verbatim>\<open>response.data as T\<close>), so the data of a response is a value of one of the shapes the
  protocol carries.
\<close>

datatype ResponseData =
    MatchData UrlMatchResult
  | SiteData Site
  | SitesData "Site list"
  | SettingsData Settings

record MessageResponse =
  success :: bool
  data :: "ResponseData option"
  error :: "string option"

definition DAILY_REMINDER_PREFIX :: string where
  "DAILY_REMINDER_PREFIX = ''reminder-''"

definition DAILY_RESET :: string where
  "DAILY_RESET = ''daily-reset''"

definition DEFAULT_SETTINGS :: Settings where
  "DEFAULT_SETTINGS =
     \<lparr> theme = System,
       reminder = \<lparr> enabled = False, times = [''09:00''] \<rparr>,
       autoDetectVisits = False,
       notificationsEnabled = True \<rparr>"


section \<open>Promises and exceptions\<close>

text \<open>
  An \<^verbatim>\<open>Error\<close> object is taken by its \<^verbatim>\<open>message\<close>. A promise that is awaited is taken
  by its settled outcome; \<^verbatim>\<open>await\<close> returns the value of a resolved promise and
  throws the reason of a rejected one. The content script never looks at the reason of
  a rejected channel promise (it only logs it), so the reason is kept as an error there.
  A computation that may throw has a sum type as its result, \<open>Inl\<close> the exception.
  Both \<^verbatim>\<open>null\<close> and \<^verbatim>\<open>undefined\<close> are \<open>None\<close>: the code under study only tests them
  with \<^verbatim>\<open>?.\<close> and truthiness, which do not tell them apart.
\<close>

record JsError =
  message :: string

datatype 'a Promise = Resolved 'a | Rejected JsError

definition await :: "'a Promise \<Rightarrow> JsError + 'a" where
  "await p = (case p of Resolved v \<Rightarrow> Inr v | Rejected e \<Rightarrow> Inl e)"

text \<open>
  \<^verbatim>\<open>chrome.runtime.sendMessage\<close>, as the content script sees it: for each message a promise
  of the response, which may be \<^verbatim>\<open>undefined\<close>, or a rejection (the extension context
  was invalidated).
\<close>

type_synonym Channel = "Message \<Rightarrow> MessageResponse option Promise"

section \<open>The content script (src/src/content/index.ts)\<close>

record DetectorState =
  hasNotifiedVisit :: bool
  lastProcessedUrl :: string

definition initialState :: DetectorState where
  "initialState = \<lparr> hasNotifiedVisit = False, lastProcessedUrl = [] \<rparr>"

text \<open>
  What a run reads from the page: \<^verbatim>\<open>window.location.href\<close>, \<^verbatim>\<open>document.title\<close>,
  \<^verbatim>\<open>Date.now()\<close> and whether \<^verbatim>\<open>document.visibilityState\<close> is \<^verbatim>\<open>'visible'\<close>.
\<close>

record Page =
  href :: string
  document_title :: string
  now :: int
  visible :: bool

definition startsWith :: "string \<Rightarrow> string \<Rightarrow> bool" where
  "startsWith s searchString = prefix searchString s"

text \<open>The body of the \<^verbatim>\<open>try\<close> block of \<^verbatim>\<open>sendMessage\<close> (lines 54 to 58).\<close>

definition sendMessage_try :: "Channel \<Rightarrow> Message \<Rightarrow> JsError + ResponseData option" where
  "sendMessage_try chrome_runtime_sendMessage msg =
     (case await (chrome_runtime_sendMessage msg) of
        Inl e \<Rightarrow> Inl e
      | Inr response \<Rightarrow>
          (case response of
             None \<Rightarrow> Inr None
           | Some r \<Rightarrow> if success r then Inr (data r) else Inr None))"

text \<open>\<^verbatim>\<open>sendMessage\<close>: the \<^verbatim>\<open>catch\<close> clause logs the error and returns \<^verbatim>\<open>null\<close>.\<close>

definition sendMessage :: "Channel \<Rightarrow> Message \<Rightarrow> JsError + ResponseData option" where
  "sendMessage chrome_runtime_sendMessage msg =
     (case sendMessage_try chrome_runtime_sendMessage msg of
        Inl err \<Rightarrow> Inr None
      | Inr v \<Rightarrow> Inr v)"

text \<open>
  \<^verbatim>\<open>matchResult?.matched\<close> and \<^verbatim>\<open>matchResult.alreadyVisitedToday\<close>, by truthiness: a value
  that is absent, or that is not of the shape of a \<^verbatim>\<open>UrlMatchResult\<close>, has neither
  property.
\<close>

definition truthy_matched :: "ResponseData option \<Rightarrow> bool" where
  "truthy_matched matchResult =
     (case matchResult of Some (MatchData r) \<Rightarrow> matched r | _ \<Rightarrow> False)"

definition truthy_alreadyVisitedToday :: "ResponseData option \<Rightarrow> bool" where
  "truthy_alreadyVisitedToday matchResult =
     (case matchResult of
        Some (MatchData r) \<Rightarrow> (case alreadyVisitedToday r of Some b \<Rightarrow> b | None \<Rightarrow> False)
      | _ \<Rightarrow> False)"

definition checkUrlMatchMessage :: "string \<Rightarrow> Message" where
  "checkUrlMatchMessage currentUrl =
     \<lparr> type = CHECK_URL_MATCH, payload = Some (UrlPayload currentUrl) \<rparr>"

definition siteVisitedMessage :: "string \<Rightarrow> Page \<Rightarrow> Message" where
  "siteVisitedMessage currentUrl page =
     \<lparr> type = SITE_VISITED,
       payload = Some (VisitPayload
         \<lparr> visit_url = currentUrl,
           visit_title = (if document_title page = [] then currentUrl else document_title page),
           timestamp = now page \<rparr>) \<rparr>"

text \<open>
  \<^verbatim>\<open>processVisit\<close> (lines 73 to 125). The result is the state of the two module variables
  after the run and the messages handed to \<^verbatim>\<open>chrome.runtime.sendMessage\<close>, in order. The
  run is taken as a whole: no other handler runs between its two \<^verbatim>\<open>await\<close>s. An
  exception inside the \<^verbatim>\<open>try\<close> block (the \<open>Inl\<close> branches) is caught and logged, and
  the assignments made before it stay.
\<close>

definition processVisit :: "Channel \<Rightarrow> Page \<Rightarrow> DetectorState \<Rightarrow> DetectorState \<times> Message list" where
  "processVisit chan page st =
     (let currentUrl = href page in
      if hasNotifiedVisit st \<and> currentUrl = lastProcessedUrl st then (st, [])
      else if \<not> startsWith currentUrl ''http://'' \<and> \<not> startsWith currentUrl ''https://''
        then (st, [])
      else
        let st1 = st\<lparr>lastProcessedUrl := currentUrl\<rparr>;
            checkMsg = checkUrlMatchMessage currentUrl
        in (case sendMessage chan checkMsg of
              Inl err \<Rightarrow> (st1, [checkMsg])
            | Inr matchResult \<Rightarrow>
                if \<not> truthy_matched matchResult then (st1, [checkMsg])
                else if truthy_alreadyVisitedToday matchResult
                  then (st1\<lparr>hasNotifiedVisit := True\<rparr>, [checkMsg])
                else
                  let visitMsg = siteVisitedMessage currentUrl page
                  in (case sendMessage chan visitMsg of
                        Inl err \<Rightarrow> (st1, [checkMsg, visitMsg])
                      | Inr _ \<Rightarrow> (st1\<lparr>hasNotifiedVisit := True\<rparr>, [checkMsg, visitMsg]))))"

text \<open>
  A run of \<^verbatim>\<open>processVisit\<close> is not awaited by its callers (lines 164, 182 and 195): it
  is suspended at each of its two \<^verbatim>\<open>await\<close>s, and until the awaited promise settles
  other handlers run and other runs start. A suspended run keeps its local
  \<^verbatim>\<open>currentUrl\<close>, or the message it is waiting on.
\<close>

datatype Suspended =
    AwaitingMatch string
  | AwaitingVisit Message

text \<open>
  \<^verbatim>\<open>processVisit\<close> from its start to its first \<^verbatim>\<open>await\<close> (lines 74 to 93): the state
  after it, the message sent, and the run suspended on the answer, if the run did not
  return at one of the two guards.
\<close>

definition processVisit_begin ::
    "Page \<Rightarrow> DetectorState \<Rightarrow> DetectorState \<times> Message list \<times> Suspended option" where
  "processVisit_begin page st =
     (let currentUrl = href page in
      if hasNotifiedVisit st \<and> currentUrl = lastProcessedUrl st then (st, [], None)
      else if \<not> startsWith currentUrl ''http://'' \<and> \<not> startsWith currentUrl ''https://''
        then (st, [], None)
      else (st\<lparr>lastProcessedUrl := currentUrl\<rparr>, [checkUrlMatchMessage currentUrl],
            Some (AwaitingMatch currentUrl)))"

text \<open>
  \<^verbatim>\<open>processVisit\<close> from the moment the promise it awaits settles (with \<open>settled\<close>) to
  its next \<^verbatim>\<open>await\<close> or its end (lines 93 to 124). The state and the page are those of
  that moment: the title and the clock are read when the payload is built.
\<close>

definition processVisit_resume ::
    "Suspended \<Rightarrow> MessageResponse option Promise \<Rightarrow> Page \<Rightarrow> DetectorState
      \<Rightarrow> DetectorState \<times> Message list \<times> Suspended option" where
  "processVisit_resume run settled page st =
     (case run of
        AwaitingMatch currentUrl \<Rightarrow>
          (case sendMessage (\<lambda>m. settled) (checkUrlMatchMessage currentUrl) of
             Inl err \<Rightarrow> (st, [], None)
           | Inr matchResult \<Rightarrow>
               if \<not> truthy_matched matchResult then (st, [], None)
               else if truthy_alreadyVisitedToday matchResult
                 then (st\<lparr>hasNotifiedVisit := True\<rparr>, [], None)
               else (st, [siteVisitedMessage currentUrl page],
                     Some (AwaitingVisit (siteVisitedMessage currentUrl page))))
      | AwaitingVisit visitMsg \<Rightarrow>
          (case sendMessage (\<lambda>m. settled) visitMsg of
             Inl err \<Rightarrow> (st, [], None)
           | Inr _ \<Rightarrow> (st\<lparr>hasNotifiedVisit := True\<rparr>, [], None)))"















text \<open>
  The calendar day of a timestamp in the local time zone: timestamps are milliseconds,
  \<open>tz\<close> is the offset of the local zone in milliseconds.
\<close>

definition dayOf :: "int \<Rightarrow> int \<Rightarrow> int" where
  "dayOf tz t = (t + tz) div 86400000"


text \<open>
  Pages and answers for concrete sessions: the page \<^verbatim>\<open>https://a.example/check\<close> is a
  saved site, \<^verbatim>\<open>https://a.example/other\<close> is not. The channel \<open>channelStoreDown\<close> answers
  a match request with a match that is not yet visited today and a visit notification
  with a failure (the visit could not be stored); \<open>channelNoMatch\<close> answers a match
  request with no match.
\<close>

definition pageAt :: "string \<Rightarrow> int \<Rightarrow> Page" where
  "pageAt u t = \<lparr> href = u, document_title = ''A'', now = t, visible = True \<rparr>"

definition channelStoreDown :: Channel where
  "channelStoreDown msg =
     (if type msg = CHECK_URL_MATCH
      then Resolved (Some \<lparr> success = True,
             data = Some (MatchData \<lparr> matched = True, siteId = Some ''s1'',
                      siteName = Some ''A'', alreadyVisitedToday = Some False \<rparr>),
             error = None \<rparr>)
      else Resolved (Some \<lparr> success = False, data = None, error = Some ''Store error'' \<rparr>))"

definition channelNoMatch :: Channel where
  "channelNoMatch msg =
     Resolved (Some \<lparr> success = True,
       data = Some (MatchData \<lparr> matched = False, siteId = None, siteName = None,
                alreadyVisitedToday = None \<rparr>),
       error = None \<rparr>)"







section \<open>The theme hook (src/unnamed/part_000)\<close>

text \<open>
  \<^verbatim>\<open>loadTheme\<close> reads the stored settings and takes
  \<^verbatim>\<open>settings?.theme || 'system'\<close> (line 42): the theme when nothing is stored is
  \<^verbatim>\<open>'system'\<close>. The three theme literals are non-empty strings, hence truthy.
\<close>

definition savedTheme :: "Settings option \<Rightarrow> Theme" where
  "savedTheme settings = (case settings of None \<Rightarrow> System | Some s \<Rightarrow> theme s)"

section \<open>The message listener and the documented handlers (src/docs/messaging.md)\<close>









text \<open>
  The caller \<^verbatim>\<open>saveSite\<close> of the usage examples (lines 118 to 129), from the response
  on: it throws \<^verbatim>\<open>new Error(response.error)\<close> when \<^verbatim>\<open>success\<close> is false (the message of
  \<^verbatim>\<open>new Error(undefined)\<close> is empty) and returns \<^verbatim>\<open>response.data\<close> otherwise.
\<close>

definition saveSite_result :: "MessageResponse \<Rightarrow> JsError + ResponseData option" where
  "saveSite_result response =
     (if \<not> success response
      then Inl \<lparr> message = (case error response of None \<Rightarrow> [] | Some e \<Rightarrow> e) \<rparr>
      else Inr (data response))"

definition saveSite :: "(Message \<Rightarrow> MessageResponse Promise) \<Rightarrow> string \<Rightarrow> string
      \<Rightarrow> JsError + ResponseData option" where
  "saveSite chan u t =
     (case await (chan \<lparr> type = SAVE_SITE, payload = Some (AddSitePayload u t) \<rparr>) of
        Inl e \<Rightarrow> Inl e
      | Inr response \<Rightarrow> saveSite_result response)"






section \<open>The coordinator: matcher, recorder and scheduler\<close>

text \<open>
  The background service worker (router, matcher, recorder, scheduler) is not among the
  sources, which hold its types, its constants and its callers only. The definitions of
  this section follow the specification.
\<close>

text \<open>
  Modelled from the spec: the scheme test of the Site Matcher, which is missing from the
  sources (section 4.2: non-http(s) schemes are rejected before matching). The scheme of
  a URL is what stands before its first colon.
\<close>

definition urlScheme :: "string \<Rightarrow> string option" where
  "urlScheme u =
     (if CHR '':'' \<in> set u then Some (takeWhile (\<lambda>c. c \<noteq> CHR '':'') u) else None)"

text \<open>
  Modelled from the spec: the scheme test of the missing Site Matcher (section 4.2): a URL
  passes when its scheme is http or https.
\<close>

definition isHttpUrl :: "string \<Rightarrow> bool" where
  "isHttpUrl u = (urlScheme u = Some ''http'' \<or> urlScheme u = Some ''https'')"

text \<open>
  Modelled from the spec: the result of the Site Matcher \<^verbatim>\<open>match(url)\<close>, which is
  missing from the sources (section 4.2), when nothing matches. In the matcher,
  non-http(s) URLs are rejected first; the first saved site, in insertion order, whose
  URL equals the candidate wins; \<^verbatim>\<open>alreadyVisitedToday\<close> compares the local day of the
  last visit with the current one. The normalised comparison of a saved URL with a
  candidate, which the spec describes loosely, is the parameter \<open>sameUrl\<close>.
\<close>

definition noMatch :: UrlMatchResult where
  "noMatch = \<lparr> matched = False, siteId = None, siteName = None, alreadyVisitedToday = None \<rparr>"

text \<open>
  Modelled from the spec: the missing Site Matcher \<^verbatim>\<open>match(url)\<close> itself (section 4.2),
  as described above.
\<close>

definition matchUrl ::
    "(string \<Rightarrow> string \<Rightarrow> bool) \<Rightarrow> int \<Rightarrow> Site list \<Rightarrow> int \<Rightarrow> string \<Rightarrow> UrlMatchResult" where
  "matchUrl sameUrl tz sites currentTime u =
     (if \<not> isHttpUrl u then noMatch
      else (case find (\<lambda>s. sameUrl (url s) u) sites of
              None \<Rightarrow> noMatch
            | Some s \<Rightarrow>
                \<lparr> matched = True, siteId = Some (id' s), siteName = Some (title s),
                  alreadyVisitedToday =
                    Some (case lastVisitedAt s of
                            None \<Rightarrow> False
                          | Some t \<Rightarrow> dayOf tz t = dayOf tz currentTime) \<rparr>))"

text \<open>
  Modelled from the spec: the handler of \<^verbatim>\<open>CHECK_URL_MATCH\<close>, which is missing from the
  sources (section 4.1: it delegates to the matcher and fails on a store error only;
  section 8: for a \<^verbatim>\<open>file://\<close> URL it returns \<^verbatim>\<open>matched:false\<close> unconditionally).
  \<open>getSites\<close> is the outcome of the read of the store.
\<close>

definition handleCheckUrlMatch ::
    "(string \<Rightarrow> string \<Rightarrow> bool) \<Rightarrow> int \<Rightarrow> Site list Promise \<Rightarrow> int \<Rightarrow> string
      \<Rightarrow> MessageResponse" where
  "handleCheckUrlMatch sameUrl tz getSites currentTime u =
     (if \<not> isHttpUrl u
      then \<lparr> success = True, data = Some (MatchData noMatch), error = None \<rparr>
      else (case await getSites of
              Inl err \<Rightarrow> \<lparr> success = False, data = None, error = Some (message err) \<rparr>
            | Inr sites \<Rightarrow>
                \<lparr> success = True,
                  data = Some (MatchData (matchUrl sameUrl tz sites currentTime u)),
                  error = None \<rparr>))"

text \<open>
  Modelled from the spec: the Visit Recorder, which is missing from the sources
  (section 4.3; the scenario of section 8: a visit at \<open>T\<close> gives \<^verbatim>\<open>visitCount\<close> one more
  and \<^verbatim>\<open>lastVisitedAt:T\<close>; the invariant of section 3: \<^verbatim>\<open>lastVisitedAt\<close> is
  non-decreasing once set). The recorder keeps the later of the time already stored and
  the time of the visit. Both fields are written together, as one record.
\<close>

definition recordVisit :: "int \<Rightarrow> Site \<Rightarrow> Site" where
  "recordVisit t s =
     s\<lparr>visitCount := visitCount s + 1,
       lastVisitedAt := Some (case lastVisitedAt s of None \<Rightarrow> t | Some t0 \<Rightarrow> max t0 t)\<rparr>"

text \<open>
  Modelled from the spec: the read-modify-write of one site in the stored collection,
  which is missing from the sources: the first site that satisfies \<open>P\<close> is replaced by
  its update, which is returned too; \<open>None\<close> when there is no such site.
\<close>

fun updateFirst :: "('a \<Rightarrow> bool) \<Rightarrow> ('a \<Rightarrow> 'a) \<Rightarrow> 'a list \<Rightarrow> 'a list \<times> 'a option" where
  "updateFirst P f [] = ([], None)"
| "updateFirst P f (x # xs) =
     (if P x then (f x # xs, Some (f x))
      else (let (ys, r) = updateFirst P f xs in (x # ys, r)))"

text \<open>
  Modelled from the spec: the handler of \<^verbatim>\<open>SITE_VISITED\<close>, which is missing from the
  sources (sections 4.1 and 4.3): the auto-detected variant runs the matcher again and
  records the visit at the timestamp of the payload; when no site matches, nothing is
  written and the data is null.
\<close>

definition handleSiteVisited ::
    "(string \<Rightarrow> string \<Rightarrow> bool) \<Rightarrow> Site list \<Rightarrow> SiteVisitedPayload
      \<Rightarrow> Site list \<times> MessageResponse" where
  "handleSiteVisited sameUrl sites p =
     (if \<not> isHttpUrl (visit_url p)
      then (sites, \<lparr> success = True, data = None, error = None \<rparr>)
      else (let (sites', updated) =
                  updateFirst (\<lambda>s. sameUrl (url s) (visit_url p))
                    (recordVisit (timestamp p)) sites
            in (sites', \<lparr> success = True, data = map_option SiteData updated,
                          error = None \<rparr>)))"








text \<open>
  Modelled from the spec: the alarms of the host, which the sources name only
  (\<^verbatim>\<open>ALARM_NAMES\<close>): named wake signals that can be registered and cancelled by prefix
  (section 6). Registering a name again replaces the alarm of that name. A reminder
  alarm keeps the wall-clock time it stands for and is recurring.
\<close>

record Alarm =
  name :: string
  atTime :: string
  recurring :: bool

text \<open>
  Modelled from the spec: cancelling by prefix, an operation of the host's alarms that is
  missing from the sources (section 6).
\<close>

definition cancelByPrefix :: "string \<Rightarrow> Alarm list \<Rightarrow> Alarm list" where
  "cancelByPrefix p alarms = filter (\<lambda>a. \<not> startsWith (name a) p) alarms"

text \<open>
  Modelled from the spec: registering a named alarm, an operation of the host's alarms
  that is missing from the sources (section 6); an alarm of the same name is replaced.
\<close>

definition createAlarm :: "Alarm \<Rightarrow> Alarm list \<Rightarrow> Alarm list" where
  "createAlarm a alarms = filter (\<lambda>b. name b \<noteq> name a) alarms @ [a]"

text \<open>
  Modelled from the spec: the alarms that the missing Reminder Scheduler owns, those
  whose name carries the prefix \<^verbatim>\<open>ALARM_NAMES.DAILY_REMINDER_PREFIX\<close> (section 4.4).
\<close>

definition isReminderAlarm :: "Alarm \<Rightarrow> bool" where
  "isReminderAlarm a = startsWith (name a) DAILY_REMINDER_PREFIX"

text \<open>
  Modelled from the spec: the alarm that the missing Reminder Scheduler creates for a
  configured time (section 4.4): recurring, named by the prefix and the time.
\<close>

definition reminderAlarm :: "string \<Rightarrow> Alarm" where
  "reminderAlarm t = \<lparr> name = DAILY_REMINDER_PREFIX @ t, atTime = t, recurring = True \<rparr>"

text \<open>
  Modelled from the spec: the reconciliation of the Reminder Scheduler, which is missing
  from the sources (section 4.4): cancel all alarms under the reminder prefix, then, if
  the reminder is enabled, create one recurring alarm per configured time.
\<close>

definition reconcile :: "Settings \<Rightarrow> Alarm list \<Rightarrow> Alarm list" where
  "reconcile settings alarms =
     (let cleared = cancelByPrefix DAILY_REMINDER_PREFIX alarms
      in if enabled (reminder settings)
         then foldl (\<lambda>registered t. createAlarm (reminderAlarm t) registered) cleared
                (times (reminder settings))
         else cleared)"

text \<open>
  Modelled from the spec: the partial reminder configuration inside the payload of
  \<^verbatim>\<open>UPDATE_SETTINGS\<close> (section 4.1), whose handler is missing from the sources.
\<close>

record PartialReminder =
  enabled_opt :: "bool option"
  times_opt :: "string list option"

text \<open>
  Modelled from the spec: the partial Settings record that \<^verbatim>\<open>UPDATE_SETTINGS\<close> carries
  (section 4.1), every field optional; its handler is missing from the sources.
\<close>

record PartialSettings =
  theme_opt :: "Theme option"
  reminder_opt :: "PartialReminder option"
  autoDetectVisits_opt :: "bool option"
  notificationsEnabled_opt :: "bool option"

text \<open>
  Modelled from the spec: the missing handler of \<^verbatim>\<open>GET_SETTINGS\<close> (section 4.1): the
  stored settings, or the defaults when nothing is persisted.
\<close>

definition getSettings :: "Settings option \<Rightarrow> Settings" where
  "getSettings stored = (case stored of None \<Rightarrow> DEFAULT_SETTINGS | Some s \<Rightarrow> s)"

text \<open>
  Modelled from the spec: the deep merge of the missing handler of \<^verbatim>\<open>UPDATE_SETTINGS\<close>
  (section 4.1), on the reminder configuration.
\<close>

definition mergeReminder :: "ReminderConfig \<Rightarrow> PartialReminder \<Rightarrow> ReminderConfig" where
  "mergeReminder r p =
     \<lparr> enabled = (case enabled_opt p of None \<Rightarrow> enabled r | Some b \<Rightarrow> b),
       times = (case times_opt p of None \<Rightarrow> times r | Some ts \<Rightarrow> ts) \<rparr>"

text \<open>
  Modelled from the spec: the deep merge of the missing handler of \<^verbatim>\<open>UPDATE_SETTINGS\<close>
  (section 4.1), on the whole record.
\<close>

definition deepMerge :: "Settings \<Rightarrow> PartialSettings \<Rightarrow> Settings" where
  "deepMerge s p =
     \<lparr> theme = (case theme_opt p of None \<Rightarrow> theme s | Some t \<Rightarrow> t),
       reminder = (case reminder_opt p of
                     None \<Rightarrow> reminder s
                   | Some r \<Rightarrow> mergeReminder (reminder s) r),
       autoDetectVisits =
         (case autoDetectVisits_opt p of None \<Rightarrow> autoDetectVisits s | Some b \<Rightarrow> b),
       notificationsEnabled =
         (case notificationsEnabled_opt p of
            None \<Rightarrow> notificationsEnabled s
          | Some b \<Rightarrow> b) \<rparr>"

text \<open>
  Modelled from the spec: the state of the missing coordinator that the scheduler
  depends on: the persisted settings, if any, and the alarms registered with the host.
\<close>

record Coordinator =
  storedSettings :: "Settings option"
  alarms :: "Alarm list"

text \<open>
  Modelled from the spec: the missing handler of \<^verbatim>\<open>UPDATE_SETTINGS\<close> (sections 4.1 and
  4.4): it stores and returns the merged settings and reconciles the scheduler when the
  update touches \<^verbatim>\<open>reminder\<close>.
\<close>

definition handleUpdateSettings :: "PartialSettings \<Rightarrow> Coordinator \<Rightarrow> Coordinator \<times> Settings" where
  "handleUpdateSettings p c =
     (let merged = deepMerge (getSettings (storedSettings c)) p
      in (c\<lparr> storedSettings := Some merged,
             alarms := (if reminder_opt p \<noteq> None then reconcile merged (alarms c)
                        else alarms c) \<rparr>,
          merged))"

text \<open>
  Modelled from the spec: the cold start of the missing coordinator (section 4.4), which
  reconciles the scheduler with the persisted settings.
\<close>

definition coldStart :: "Coordinator \<Rightarrow> Coordinator" where
  "coldStart c = c\<lparr> alarms := reconcile (getSettings (storedSettings c)) (alarms c) \<rparr>"

text \<open>
  A saved site as \<^verbatim>\<open>SAVE_SITE\<close> creates it (no visit yet), and an auto-detected visit
  to it at a given timestamp.
\<close>

definition savedSite :: Site where
  "savedSite =
     \<lparr> id' = ''s1'', url = ''https://a.example/check'', title = ''A'', favicon = None,
       notes' = None, tags = None, createdAt = 0, lastVisitedAt = None, visitCount = 0 \<rparr>"


text \<open>
  The update \<^verbatim>\<open>{reminder: {enabled, times}}\<close> of the settings, either field optional,
  and the daily-reset alarm.
\<close>

definition reminderUpdate :: "bool option \<Rightarrow> string list option \<Rightarrow> PartialSettings" where
  "reminderUpdate e ts =
     \<lparr> theme_opt = None, reminder_opt = Some \<lparr> enabled_opt = e, times_opt = ts \<rparr>,
       autoDetectVisits_opt = None, notificationsEnabled_opt = None \<rparr>"

definition dailyResetAlarm :: Alarm where
  "dailyResetAlarm = \<lparr> name = DAILY_RESET, atTime = ''00:00'', recurring = True \<rparr>"

section \<open>The message protocol is a closed enumeration\<close>

text \<open>
  C8. The request types of the message protocol are exactly the fourteen literals
  GET_SITES, SAVE_SITE, UPDATE_SITE, DELETE_SITE, MARK_VISITED, MARK_CHECKED_IN,
  SITE_VISITED, CHECK_URL_MATCH, GET_SETTINGS, UPDATE_SETTINGS, CLEAR_ALL_SITES,
  RESET_ALL_STATUS, NOTIFICATION_ACTION and OPEN_POPUP: the type of a message is always
  one of the members of the union, the members are fourteen, they are pairwise different,
  and their literals are the fourteen names above and no other.
\<close>

theorem MessageType_closed:
  "type (m :: Message) \<in> set MessageType_members
   \<and> (UNIV :: MessageType set) = set MessageType_members
   \<and> length MessageType_members = 14
   \<and> distinct (map MessageType_literal MessageType_members)
   \<and> range MessageType_literal =
       {''GET_SITES'', ''SAVE_SITE'', ''UPDATE_SITE'', ''DELETE_SITE'', ''MARK_VISITED'',
        ''MARK_CHECKED_IN'', ''SITE_VISITED'', ''CHECK_URL_MATCH'', ''GET_SETTINGS'',
        ''UPDATE_SETTINGS'', ''CLEAR_ALL_SITES'', ''RESET_ALL_STATUS'',
        ''NOTIFICATION_ACTION'', ''OPEN_POPUP''}"
proof -
  have univ: "(UNIV :: MessageType set) = set MessageType_members"
  proof -
    have "t \<in> set MessageType_members" for t
      by (cases t) (simp_all add: MessageType_members_def)
    then show ?thesis by auto
  qed
  have len: "length MessageType_members = 14"
    by (simp add: MessageType_members_def)
  have dist: "distinct (map MessageType_literal MessageType_members)"
    by (simp add: MessageType_members_def)
  have "range MessageType_literal = MessageType_literal ` set MessageType_members"
    using univ by simp
  also have "\<dots> =
       {''GET_SITES'', ''SAVE_SITE'', ''UPDATE_SITE'', ''DELETE_SITE'', ''MARK_VISITED'',
        ''MARK_CHECKED_IN'', ''SITE_VISITED'', ''CHECK_URL_MATCH'', ''GET_SETTINGS'',
        ''UPDATE_SETTINGS'', ''CLEAR_ALL_SITES'', ''RESET_ALL_STATUS'',
        ''NOTIFICATION_ACTION'', ''OPEN_POPUP''}"
    unfolding MessageType_members_def by (simp add: insert_commute)
  finally have rng: "range MessageType_literal =
       {''GET_SITES'', ''SAVE_SITE'', ''UPDATE_SITE'', ''DELETE_SITE'', ''MARK_VISITED'',
        ''MARK_CHECKED_IN'', ''SITE_VISITED'', ''CHECK_URL_MATCH'', ''GET_SETTINGS'',
        ''UPDATE_SETTINGS'', ''CLEAR_ALL_SITES'', ''RESET_ALL_STATUS'',
        ''NOTIFICATION_ACTION'', ''OPEN_POPUP''}" .
  have "type m \<in> set MessageType_members"
    using univ by blast
  with univ len dist rng show ?thesis by blast
qed

section \<open>The default settings\<close>

text \<open>
  C10. The default Settings record is exactly theme 'system', reminder disabled with the
  single time '09:00', automatic visit detection disabled and notifications enabled:
  reminders and automatic detection are off and notifications on until the user changes
  them. The theme hook falls back to the same theme when no settings are stored.
\<close>

theorem DEFAULT_SETTINGS_value:
  "DEFAULT_SETTINGS =
     \<lparr> theme = System, reminder = \<lparr> enabled = False, times = [''09:00''] \<rparr>,
       autoDetectVisits = False, notificationsEnabled = True \<rparr>
   \<and> theme DEFAULT_SETTINGS = System
   \<and> enabled (reminder DEFAULT_SETTINGS) = False
   \<and> times (reminder DEFAULT_SETTINGS) = [''09:00'']
   \<and> autoDetectVisits DEFAULT_SETTINGS = False
   \<and> notificationsEnabled DEFAULT_SETTINGS = True
   \<and> savedTheme None = theme DEFAULT_SETTINGS"
  by (simp add: DEFAULT_SETTINGS_def savedTheme_def)

section \<open>The content script's messaging\<close>

lemma sendMessage_value:
  "sendMessage chan msg =
     Inr (case chan msg of
            Resolved None \<Rightarrow> None
          | Resolved (Some r) \<Rightarrow> if success r then data r else None
          | Rejected e \<Rightarrow> None)"
  by (simp add: sendMessage_def sendMessage_try_def await_def
      split: Promise.splits option.splits)

text \<open>
  C9. \<^verbatim>\<open>sendMessage\<close> is total over the channel: whatever the channel does with the
  message, the call returns and does not throw (its result is never an exception); it
  returns the data of the response when the response has \<^verbatim>\<open>success:true\<close>, and null
  when the response has \<^verbatim>\<open>success:false\<close>, when there is no response, and when the
  channel throws.
\<close>

theorem sendMessage_total:
  "(\<exists>v. sendMessage chan msg = Inr v)
   \<and> (\<forall>r. chan msg = Resolved (Some r) \<and> success r \<longrightarrow> sendMessage chan msg = Inr (data r))
   \<and> (\<forall>r. chan msg = Resolved (Some r) \<and> \<not> success r \<longrightarrow> sendMessage chan msg = Inr None)
   \<and> (chan msg = Resolved None \<longrightarrow> sendMessage chan msg = Inr None)
   \<and> (\<forall>e. chan msg = Rejected e \<longrightarrow> sendMessage chan msg = Inr None)"
  by (simp add: sendMessage_value)

theorem sendMessage_total_witness:
  "sendMessage channelStoreDown (checkUrlMatchMessage ''https://a.example/check'') =
     Inr (Some (MatchData \<lparr> matched = True, siteId = Some ''s1'', siteName = Some ''A'',
                            alreadyVisitedToday = Some False \<rparr>))
   \<and> sendMessage channelStoreDown
       (siteVisitedMessage ''https://a.example/check'' (pageAt ''https://a.example/check'' 1000)) =
     Inr None
   \<and> sendMessage (\<lambda>m. Rejected \<lparr> message = ''Extension context invalidated.'' \<rparr>)
       (checkUrlMatchMessage ''https://a.example/check'') = Inr None
   \<and> sendMessage (\<lambda>m. Resolved None) (checkUrlMatchMessage ''https://a.example/check'') =
     Inr None"
proof -
  let ?check = "checkUrlMatchMessage ''https://a.example/check''"
  let ?visit = "siteVisitedMessage ''https://a.example/check''
                  (pageAt ''https://a.example/check'' 1000)"
  have a: "sendMessage channelStoreDown ?check =
     Inr (Some (MatchData \<lparr> matched = True, siteId = Some ''s1'', siteName = Some ''A'',
                            alreadyVisitedToday = Some False \<rparr>))"
    using sendMessage_total [of channelStoreDown ?check]
    by (simp add: channelStoreDown_def checkUrlMatchMessage_def)
  have b: "sendMessage channelStoreDown ?visit = Inr None"
    using sendMessage_total [of channelStoreDown ?visit]
    by (simp add: channelStoreDown_def siteVisitedMessage_def)
  have c: "sendMessage (\<lambda>m. Rejected \<lparr> message = ''Extension context invalidated.'' \<rparr>)
       ?check = Inr None"
    using sendMessage_total
      [of "\<lambda>m. Rejected \<lparr> message = ''Extension context invalidated.'' \<rparr>" ?check]
    by simp
  have d: "sendMessage (\<lambda>m. Resolved None) ?check = Inr None"
    using sendMessage_total [of "\<lambda>m. Resolved None" ?check] by simp
  from a b c d show ?thesis by simp
qed

section \<open>One run of the detector\<close>

lemma startsWith_http_isHttpUrl:
  assumes "startsWith u ''http://'' \<or> startsWith u ''https://''"
  shows "isHttpUrl u"
proof -
  from assms consider r where "u = ''http://'' @ r" | r where "u = ''https://'' @ r"
    by (auto simp: startsWith_def prefix_def)
  then show ?thesis
    by cases (simp_all add: isHttpUrl_def urlScheme_def)
qed

lemma processVisit_not_http:
  "\<not> startsWith (href page) ''http://'' \<Longrightarrow> \<not> startsWith (href page) ''https://''
    \<Longrightarrow> processVisit chan page st = (st, [])"
  by (simp add: processVisit_def Let_def)

lemma processVisit_guard:
  "hasNotifiedVisit st \<Longrightarrow> lastProcessedUrl st = href page
    \<Longrightarrow> processVisit chan page st = (st, [])"
  by (simp add: processVisit_def)

lemma processVisit_trace:
  "snd (processVisit chan page st) = [] \<or>
   snd (processVisit chan page st) = [checkUrlMatchMessage (href page)] \<or>
   snd (processVisit chan page st) =
     [checkUrlMatchMessage (href page), siteVisitedMessage (href page) page]"
  by (simp add: processVisit_def Let_def sendMessage_value)

lemma processVisit_sends_visit_iff:
  "(snd (processVisit chan page st) =
      [checkUrlMatchMessage (href page), siteVisitedMessage (href page) page]) \<longleftrightarrow>
   (\<not> (hasNotifiedVisit st \<and> href page = lastProcessedUrl st)
    \<and> (startsWith (href page) ''http://'' \<or> startsWith (href page) ''https://'')
    \<and> (\<exists>res r. chan (checkUrlMatchMessage (href page)) = Resolved (Some res)
          \<and> success res \<and> data res = Some (MatchData r)
          \<and> matched r \<and> alreadyVisitedToday r \<noteq> Some True))"
  by (auto simp add: processVisit_def Let_def sendMessage_value truthy_matched_def
        truthy_alreadyVisitedToday_def
      split: sum.splits Promise.splits option.splits ResponseData.splits)

lemma type_checkUrlMatchMessage: "type (checkUrlMatchMessage u) = CHECK_URL_MATCH"
  by (simp add: checkUrlMatchMessage_def)

lemma type_siteVisitedMessage: "type (siteVisitedMessage u page) = SITE_VISITED"
  by (simp add: siteVisitedMessage_def)

text \<open>
  C2. A URL whose scheme is not http or https is never matched and never recorded: the
  handler of CHECK_URL_MATCH answers \<^verbatim>\<open>matched:false\<close> for it, whatever the store holds,
  the matcher does not match it, the handler of SITE_VISITED writes nothing for it; and
  \<^verbatim>\<open>processVisit\<close> returns without sending any message, its state unchanged, when the
  current URL does not start with \<^verbatim>\<open>http://\<close> or \<^verbatim>\<open>https://\<close>, which is the case of every
  URL whose scheme is not http or https.
\<close>

theorem non_http_never_matched:
  "(\<not> isHttpUrl u \<longrightarrow>
       handleCheckUrlMatch sameUrl tz getSites currentTime u =
         \<lparr> success = True, data = Some (MatchData noMatch), error = None \<rparr>
     \<and> matched noMatch = False
     \<and> matched (matchUrl sameUrl tz sites currentTime u) = False
     \<and> (visit_url p = u \<longrightarrow> fst (handleSiteVisited sameUrl sites p) = sites))
   \<and> (\<not> startsWith (href page) ''http://'' \<and> \<not> startsWith (href page) ''https://'' \<longrightarrow>
       processVisit chan page st = (st, []))
   \<and> (\<not> isHttpUrl (href page) \<longrightarrow> processVisit chan page st = (st, []))"
proof -
  have coordinator: "handleCheckUrlMatch sameUrl tz getSites currentTime u =
         \<lparr> success = True, data = Some (MatchData noMatch), error = None \<rparr>
     \<and> matched noMatch = False
     \<and> matched (matchUrl sameUrl tz sites currentTime u) = False
     \<and> (visit_url p = u \<longrightarrow> fst (handleSiteVisited sameUrl sites p) = sites)"
    if "\<not> isHttpUrl u"
    using that
    by (simp add: handleCheckUrlMatch_def matchUrl_def noMatch_def handleSiteVisited_def)
  have detector: "processVisit chan page st = (st, [])"
    if "\<not> startsWith (href page) ''http://'' \<and> \<not> startsWith (href page) ''https://''"
    using that by (simp add: processVisit_not_http)
  have scheme: "processVisit chan page st = (st, [])" if "\<not> isHttpUrl (href page)"
    using that startsWith_http_isHttpUrl [of "href page"] processVisit_not_http by blast
  from coordinator detector scheme show ?thesis by blast
qed

theorem non_http_never_matched_witness:
  "handleCheckUrlMatch (=) 0 (Resolved [savedSite]) 1000 ''file:///home/user/check.html'' =
     \<lparr> success = True, data = Some (MatchData noMatch), error = None \<rparr>
   \<and> matched (matchUrl (=) 0 [savedSite] 1000 ''file:///home/user/check.html'') = False
   \<and> processVisit channelStoreDown (pageAt ''file:///home/user/check.html'' 1000) initialState =
       (initialState, [])"
proof -
  have scheme: "\<not> isHttpUrl ''file:///home/user/check.html''"
    by (simp add: isHttpUrl_def urlScheme_def)
  have page: "href (pageAt ''file:///home/user/check.html'' 1000) = ''file:///home/user/check.html''"
    by (simp add: pageAt_def)
  show ?thesis
    using scheme page
      non_http_never_matched [where u = "''file:///home/user/check.html''"
        and page = "pageAt ''file:///home/user/check.html'' 1000" and sameUrl = "(=)" and tz = 0
        and getSites = "Resolved [savedSite]" and currentTime = 1000 and sites = "[savedSite]"
        and chan = channelStoreDown and st = initialState]
    by simp
qed

text \<open>
  C3. In every run of \<^verbatim>\<open>processVisit\<close>, a SITE_VISITED message is sent only after a
  CHECK_URL_MATCH request for the same current URL: the run then sent exactly these two
  messages, in this order, both for the current URL, and the request was answered with
  \<^verbatim>\<open>success:true\<close>, \<^verbatim>\<open>matched:true\<close> and \<^verbatim>\<open>alreadyVisitedToday\<close> not true. If the match
  response is absent (the channel threw, there was no response, the response was a
  failure or had no data), or says \<^verbatim>\<open>matched:false\<close>, or says
  \<^verbatim>\<open>alreadyVisitedToday:true\<close>, the run sends no SITE_VISITED message.
\<close>

theorem SITE_VISITED_only_after_match:
  "(\<forall>m. m \<in> set (snd (processVisit chan page st)) \<and> type m = SITE_VISITED \<longrightarrow>
       snd (processVisit chan page st) = [checkUrlMatchMessage (href page), m]
     \<and> payload (checkUrlMatchMessage (href page)) = Some (UrlPayload (href page))
     \<and> (\<exists>v. payload m = Some (VisitPayload v) \<and> visit_url v = href page)
     \<and> (\<exists>res r. chan (checkUrlMatchMessage (href page)) = Resolved (Some res)
           \<and> success res \<and> data res = Some (MatchData r)
           \<and> matched r \<and> alreadyVisitedToday r \<noteq> Some True))
   \<and> ((\<exists>e. chan (checkUrlMatchMessage (href page)) = Rejected e)
        \<or> chan (checkUrlMatchMessage (href page)) = Resolved None
        \<or> (\<exists>res. chan (checkUrlMatchMessage (href page)) = Resolved (Some res)
              \<and> (\<not> success res \<or> data res = None
                  \<or> (\<exists>r. data res = Some (MatchData r)
                        \<and> (\<not> matched r \<or> alreadyVisitedToday r = Some True))))
       \<longrightarrow> (\<forall>m \<in> set (snd (processVisit chan page st)). type m \<noteq> SITE_VISITED))"
proof -
  let ?sent = "snd (processVisit chan page st)"
  let ?check = "checkUrlMatchMessage (href page)"
  let ?visit = "siteVisitedMessage (href page) page"
  have only: "?sent = [?check, ?visit]" if "m \<in> set ?sent" "type m = SITE_VISITED" for m
    using processVisit_trace [of chan page st] that
    by (auto simp add: type_checkUrlMatchMessage)
  have same: "m = ?visit" if "m \<in> set ?sent" "type m = SITE_VISITED" for m
    using only [OF that] that by (auto simp add: type_checkUrlMatchMessage)
  have url: "payload ?check = Some (UrlPayload (href page))"
    by (simp add: checkUrlMatchMessage_def)
  have visit: "\<exists>v. payload ?visit = Some (VisitPayload v) \<and> visit_url v = href page"
    by (simp add: siteVisitedMessage_def)
  have answer: "\<exists>res r. chan ?check = Resolved (Some res) \<and> success res
      \<and> data res = Some (MatchData r) \<and> matched r \<and> alreadyVisitedToday r \<noteq> Some True"
    if "m \<in> set ?sent" "type m = SITE_VISITED" for m
    using only [OF that] processVisit_sends_visit_iff [of chan page st] by blast
  have first: "\<forall>m. m \<in> set ?sent \<and> type m = SITE_VISITED \<longrightarrow>
       ?sent = [?check, m] \<and> payload ?check = Some (UrlPayload (href page))
     \<and> (\<exists>v. payload m = Some (VisitPayload v) \<and> visit_url v = href page)
     \<and> (\<exists>res r. chan ?check = Resolved (Some res) \<and> success res
           \<and> data res = Some (MatchData r) \<and> matched r \<and> alreadyVisitedToday r \<noteq> Some True)"
    using only same url visit answer by metis
  have second: "(\<exists>e. chan ?check = Rejected e) \<or> chan ?check = Resolved None
        \<or> (\<exists>res. chan ?check = Resolved (Some res)
              \<and> (\<not> success res \<or> data res = None
                  \<or> (\<exists>r. data res = Some (MatchData r)
                        \<and> (\<not> matched r \<or> alreadyVisitedToday r = Some True))))
       \<longrightarrow> (\<forall>m \<in> set ?sent. type m \<noteq> SITE_VISITED)"
  proof (intro impI ballI notI)
    fix m
    assume bad: "(\<exists>e. chan ?check = Rejected e) \<or> chan ?check = Resolved None
        \<or> (\<exists>res. chan ?check = Resolved (Some res)
              \<and> (\<not> success res \<or> data res = None
                  \<or> (\<exists>r. data res = Some (MatchData r)
                        \<and> (\<not> matched r \<or> alreadyVisitedToday r = Some True))))"
      and m: "m \<in> set ?sent" "type m = SITE_VISITED"
    from answer [OF m] obtain res r where
      "chan ?check = Resolved (Some res)" "success res" "data res = Some (MatchData r)"
      "matched r" "alreadyVisitedToday r \<noteq> Some True"
      by blast
    with bad show False by auto
  qed
  from first second show ?thesis by blast
qed

theorem SITE_VISITED_only_after_match_witness:
  "snd (processVisit channelStoreDown (pageAt ''https://a.example/check'' 1000) initialState) =
     [checkUrlMatchMessage ''https://a.example/check'',
      siteVisitedMessage ''https://a.example/check'' (pageAt ''https://a.example/check'' 1000)]
   \<and> (\<exists>res r. channelStoreDown (checkUrlMatchMessage ''https://a.example/check'') =
                 Resolved (Some res)
         \<and> success res \<and> data res = Some (MatchData r)
         \<and> matched r \<and> alreadyVisitedToday r \<noteq> Some True)
   \<and> snd (processVisit channelNoMatch (pageAt ''https://a.example/other'' 1000) initialState) =
       [checkUrlMatchMessage ''https://a.example/other'']"
proof -
  let ?page = "pageAt ''https://a.example/check'' 1000"
  let ?visit = "siteVisitedMessage ''https://a.example/check'' ?page"
  let ?other = "pageAt ''https://a.example/other'' 1000"
  have href: "href ?page = ''https://a.example/check''" "href ?other = ''https://a.example/other''"
    by (simp_all add: pageAt_def)
  have sent: "snd (processVisit channelStoreDown ?page initialState) =
      [checkUrlMatchMessage ''https://a.example/check'', ?visit]"
    by (simp add: processVisit_def Let_def sendMessage_value channelStoreDown_def pageAt_def
        initialState_def startsWith_def checkUrlMatchMessage_def siteVisitedMessage_def
        truthy_matched_def truthy_alreadyVisitedToday_def)
  have mem: "?visit \<in> set (snd (processVisit channelStoreDown ?page initialState))
      \<and> type ?visit = SITE_VISITED"
    using sent by (simp add: type_siteVisitedMessage)
  have answered: "\<exists>res r. channelStoreDown (checkUrlMatchMessage ''https://a.example/check'') =
                 Resolved (Some res)
         \<and> success res \<and> data res = Some (MatchData r)
         \<and> matched r \<and> alreadyVisitedToday r \<noteq> Some True"
    using SITE_VISITED_only_after_match [of channelStoreDown ?page initialState] mem href
    by auto
  have trace: "snd (processVisit channelNoMatch ?other initialState) = [] \<or>
      snd (processVisit channelNoMatch ?other initialState) =
        [checkUrlMatchMessage ''https://a.example/other'']"
  proof -
    have "\<exists>res. channelNoMatch (checkUrlMatchMessage (href ?other)) = Resolved (Some res)
        \<and> (\<not> success res \<or> data res = None
            \<or> (\<exists>r. data res = Some (MatchData r)
                  \<and> (\<not> matched r \<or> alreadyVisitedToday r = Some True)))"
      by (simp add: channelNoMatch_def)
    then have "\<forall>m \<in> set (snd (processVisit channelNoMatch ?other initialState)).
        type m \<noteq> SITE_VISITED"
      using SITE_VISITED_only_after_match [of channelNoMatch ?other initialState] by blast
    then show ?thesis
      using processVisit_trace [of channelNoMatch ?other initialState] href
      by (auto simp add: type_siteVisitedMessage)
  qed
  have "snd (processVisit channelNoMatch ?other initialState) \<noteq> []"
    by (simp add: processVisit_def Let_def sendMessage_value channelNoMatch_def pageAt_def
        initialState_def startsWith_def truthy_matched_def)
  with trace sent answered show ?thesis by simp
qed

section \<open>A page session of the detector\<close>

text \<open>A run that nothing interrupts is \<^verbatim>\<open>processVisit\<close> taken as a whole.\<close>

lemma processVisit_phases:
  "processVisit chan page st =
     (case processVisit_begin page st of
        (st1, sent1, None) \<Rightarrow> (st1, sent1)
      | (st1, sent1, Some run1) \<Rightarrow>
          (case processVisit_resume run1 (chan (checkUrlMatchMessage (href page))) page st1 of
             (st2, sent2, None) \<Rightarrow> (st2, sent1 @ sent2)
           | (st2, sent2, Some run2) \<Rightarrow>
               (case processVisit_resume run2
                       (chan (siteVisitedMessage (href page) page)) page st2 of
                  (st3, sent3, run3) \<Rightarrow> (st3, sent1 @ sent2 @ sent3))))"
  by (simp add: processVisit_def processVisit_begin_def processVisit_resume_def Let_def
      sendMessage_value split: sum.splits)











section \<open>The listener and the response envelope\<close>







section \<open>The visit recorder\<close>












text \<open>
  The recorder on the scenario of section 8: a first visit at \<open>t\<close>, and a visit at a
  time \<open>t\<close> that is not before the one stored, give \<^verbatim>\<open>lastVisitedAt\<close> \<open>t\<close>; every
  visit counts.
\<close>

lemma recordVisit_scenario:
  "(lastVisitedAt s = None \<longrightarrow> lastVisitedAt (recordVisit t s) = Some t)
   \<and> (\<forall>t0. lastVisitedAt s = Some t0 \<and> t0 \<le> t \<longrightarrow> lastVisitedAt (recordVisit t s) = Some t)
   \<and> visitCount (recordVisit t s) = visitCount s + 1"
  by (simp add: recordVisit_def)




section \<open>The reminder scheduler\<close>

lemma isReminderAlarm_reminderAlarm: "isReminderAlarm (reminderAlarm t)"
  by (simp add: isReminderAlarm_def reminderAlarm_def startsWith_def)

lemma name_reminderAlarm_inj: "name (reminderAlarm t) = name (reminderAlarm t') \<longleftrightarrow> t = t'"
  by (simp add: reminderAlarm_def)

lemma cancelByPrefix_reminders:
  "filter isReminderAlarm (cancelByPrefix DAILY_REMINDER_PREFIX registered) = []"
  by (induction registered) (simp_all add: cancelByPrefix_def isReminderAlarm_def)

lemma cancelByPrefix_others:
  "filter (\<lambda>a. \<not> isReminderAlarm a) (cancelByPrefix DAILY_REMINDER_PREFIX registered) =
     filter (\<lambda>a. \<not> isReminderAlarm a) registered"
  by (induction registered) (simp_all add: cancelByPrefix_def isReminderAlarm_def)

lemma createAlarm_others:
  "filter (\<lambda>a. \<not> isReminderAlarm a) (createAlarm (reminderAlarm t) registered) =
     filter (\<lambda>a. \<not> isReminderAlarm a) registered"
proof -
  have "filter (\<lambda>a. \<not> isReminderAlarm a)
          (filter (\<lambda>b. name b \<noteq> name (reminderAlarm t)) registered) =
        filter (\<lambda>a. \<not> isReminderAlarm a) registered"
    by (induction registered)
       (auto simp add: isReminderAlarm_def reminderAlarm_def startsWith_def)
  then show ?thesis
    by (simp add: createAlarm_def isReminderAlarm_reminderAlarm)
qed

lemma foldl_create_others:
  "filter (\<lambda>a. \<not> isReminderAlarm a)
     (foldl (\<lambda>registered t. createAlarm (reminderAlarm t) registered) start ts) =
   filter (\<lambda>a. \<not> isReminderAlarm a) start"
  by (induction ts arbitrary: start) (simp_all add: createAlarm_others)

lemma foldl_create_reminders:
  "set (filter isReminderAlarm
     (foldl (\<lambda>registered t. createAlarm (reminderAlarm t) registered) start ts)) \<subseteq>
   set (filter isReminderAlarm start) \<union> reminderAlarm ` set ts"
proof (induction ts arbitrary: start)
  case Nil
  then show ?case by simp
next
  case (Cons t ts)
  have "set (filter isReminderAlarm (createAlarm (reminderAlarm t) start)) \<subseteq>
      set (filter isReminderAlarm start) \<union> {reminderAlarm t}"
    by (auto simp add: createAlarm_def)
  with Cons.IH [of "createAlarm (reminderAlarm t) start"] show ?case
    by auto
qed

lemma createAlarm_count_same:
  "length (filter (\<lambda>a. name a = name b) (createAlarm b registered)) = 1"
  by (induction registered) (simp_all add: createAlarm_def)

lemma createAlarm_count_other:
  "name b \<noteq> n \<Longrightarrow>
     length (filter (\<lambda>a. name a = n) (createAlarm b registered)) =
     length (filter (\<lambda>a. name a = n) registered)"
  by (induction registered) (auto simp add: createAlarm_def)

lemma foldl_create_count:
  "t \<in> set ts \<Longrightarrow>
     length (filter (\<lambda>a. name a = name (reminderAlarm t))
       (foldl (\<lambda>registered t. createAlarm (reminderAlarm t) registered) start ts)) = 1"
proof (induction ts arbitrary: start rule: rev_induct)
  case Nil
  then show ?case by simp
next
  case (snoc x xs)
  show ?case
  proof (cases "x = t")
    case True
    then show ?thesis by (simp add: createAlarm_count_same)
  next
    case False
    then have "name (reminderAlarm x) \<noteq> name (reminderAlarm t)"
      by (simp add: name_reminderAlarm_inj)
    moreover from False snoc.prems have "t \<in> set xs" by simp
    ultimately show ?thesis
      using snoc.IH [of start] by (simp add: createAlarm_count_other)
  qed
qed

lemma foldl_create_mem:
  "t \<in> set ts \<Longrightarrow>
     reminderAlarm t \<in>
       set (foldl (\<lambda>registered t. createAlarm (reminderAlarm t) registered) start ts)"
proof (induction ts arbitrary: start rule: rev_induct)
  case Nil
  then show ?case by simp
next
  case (snoc x xs)
  show ?case
  proof (cases "x = t")
    case True
    then show ?thesis by (simp add: createAlarm_def)
  next
    case False
    with snoc.prems have "t \<in> set xs" by simp
    from snoc.IH [OF this, of start] False show ?thesis
      by (simp add: createAlarm_def name_reminderAlarm_inj)
  qed
qed

lemma reconcile_result:
  "filter (\<lambda>a. \<not> isReminderAlarm a) (reconcile settings registered) =
     filter (\<lambda>a. \<not> isReminderAlarm a) registered
   \<and> (enabled (reminder settings) \<longrightarrow>
        set (filter isReminderAlarm (reconcile settings registered)) =
          reminderAlarm ` set (times (reminder settings))
      \<and> (\<forall>t \<in> set (times (reminder settings)).
            length (filter (\<lambda>a. name a = DAILY_REMINDER_PREFIX @ t)
                      (reconcile settings registered)) = 1))
   \<and> (\<not> enabled (reminder settings) \<longrightarrow>
        filter isReminderAlarm (reconcile settings registered) = [])"
proof -
  let ?cleared = "cancelByPrefix DAILY_REMINDER_PREFIX registered"
  let ?ts = "times (reminder settings)"
  let ?all = "foldl (\<lambda>registered t. createAlarm (reminderAlarm t) registered) ?cleared ?ts"
  have others: "filter (\<lambda>a. \<not> isReminderAlarm a) (reconcile settings registered) =
     filter (\<lambda>a. \<not> isReminderAlarm a) registered"
    by (simp add: reconcile_def Let_def foldl_create_others cancelByPrefix_others)
  have off: "filter isReminderAlarm (reconcile settings registered) = []"
    if "\<not> enabled (reminder settings)"
    using that by (simp add: reconcile_def Let_def cancelByPrefix_reminders)
  have on: "set (filter isReminderAlarm ?all) = reminderAlarm ` set ?ts"
  proof
    show "set (filter isReminderAlarm ?all) \<subseteq> reminderAlarm ` set ?ts"
      using foldl_create_reminders [of ?cleared ?ts]
      by (simp add: cancelByPrefix_reminders)
    show "reminderAlarm ` set ?ts \<subseteq> set (filter isReminderAlarm ?all)"
      using foldl_create_mem [of _ ?ts ?cleared]
      by (auto simp add: isReminderAlarm_reminderAlarm)
  qed
  have one: "length (filter (\<lambda>a. name a = DAILY_REMINDER_PREFIX @ t) ?all) = 1"
    if "t \<in> set ?ts" for t
    using foldl_create_count [OF that, of ?cleared] by (simp add: reminderAlarm_def)
  from others off on one show ?thesis
    by (simp add: reconcile_def Let_def)
qed

text \<open>
  C6. A cold start and an update of the settings that touches \<^verbatim>\<open>reminder\<close> (as every
  update that changes it does) leave the alarms reconciled with the settings in force:
  all alarms under the reminder prefix are cancelled, and the alarms outside the prefix
  are as before; then, if the reminder is enabled, the alarms under the prefix are the
  recurring alarms of the configured times, exactly one for each time; if it is
  disabled, there is none. In particular no alarm under the prefix remains after
  \<^verbatim>\<open>UPDATE_SETTINGS({reminder:{enabled:false}})\<close>.
\<close>

theorem reminder_alarms_reconciled:
  "alarms (coldStart c) = reconcile (getSettings (storedSettings c)) (alarms c)
   \<and> (reminder_opt p \<noteq> None \<longrightarrow>
        alarms (fst (handleUpdateSettings p c)) =
          reconcile (snd (handleUpdateSettings p c)) (alarms c)
      \<and> storedSettings (fst (handleUpdateSettings p c)) = Some (snd (handleUpdateSettings p c)))
   \<and> (reminder (snd (handleUpdateSettings p c)) \<noteq> reminder (getSettings (storedSettings c)) \<longrightarrow>
        alarms (fst (handleUpdateSettings p c)) =
          reconcile (snd (handleUpdateSettings p c)) (alarms c))
   \<and> filter (\<lambda>a. \<not> isReminderAlarm a) (reconcile settings registered) =
       filter (\<lambda>a. \<not> isReminderAlarm a) registered
   \<and> (enabled (reminder settings) \<longrightarrow>
        set (filter isReminderAlarm (reconcile settings registered)) =
          reminderAlarm ` set (times (reminder settings))
      \<and> (\<forall>t \<in> set (times (reminder settings)).
            recurring (reminderAlarm t) \<and> atTime (reminderAlarm t) = t
          \<and> length (filter (\<lambda>a. name a = DAILY_REMINDER_PREFIX @ t)
                      (reconcile settings registered)) = 1))
   \<and> (\<not> enabled (reminder settings) \<longrightarrow>
        filter isReminderAlarm (reconcile settings registered) = [])
   \<and> filter isReminderAlarm
       (alarms (fst (handleUpdateSettings (reminderUpdate (Some False) ts) c))) = []"
proof -
  have cold: "alarms (coldStart c) = reconcile (getSettings (storedSettings c)) (alarms c)"
    by (simp add: coldStart_def)
  have update: "alarms (fst (handleUpdateSettings p c)) =
          reconcile (snd (handleUpdateSettings p c)) (alarms c)
      \<and> storedSettings (fst (handleUpdateSettings p c)) = Some (snd (handleUpdateSettings p c))"
    if "reminder_opt p \<noteq> None"
    using that by (simp add: handleUpdateSettings_def Let_def)
  have changed: "alarms (fst (handleUpdateSettings p c)) =
          reconcile (snd (handleUpdateSettings p c)) (alarms c)"
    if "reminder (snd (handleUpdateSettings p c)) \<noteq> reminder (getSettings (storedSettings c))"
  proof -
    from that have "reminder_opt p \<noteq> None"
      by (cases "reminder_opt p") (simp_all add: handleUpdateSettings_def Let_def deepMerge_def)
    then show ?thesis by (simp add: handleUpdateSettings_def Let_def)
  qed
  have fields: "recurring (reminderAlarm t) \<and> atTime (reminderAlarm t) = t" for t
    by (simp add: reminderAlarm_def)
  have "\<not> enabled (reminder (snd (handleUpdateSettings (reminderUpdate (Some False) ts) c)))"
    by (simp add: handleUpdateSettings_def Let_def deepMerge_def mergeReminder_def
        reminderUpdate_def)
  moreover have "alarms (fst (handleUpdateSettings (reminderUpdate (Some False) ts) c)) =
      reconcile (snd (handleUpdateSettings (reminderUpdate (Some False) ts) c)) (alarms c)"
    by (simp add: handleUpdateSettings_def Let_def reminderUpdate_def)
  ultimately have disabled: "filter isReminderAlarm
       (alarms (fst (handleUpdateSettings (reminderUpdate (Some False) ts) c))) = []"
    using reconcile_result
      [of "snd (handleUpdateSettings (reminderUpdate (Some False) ts) c)" "alarms c"]
    by simp
  from cold update changed fields disabled reconcile_result [of settings registered]
  show ?thesis by simp
qed

theorem reminder_alarms_reconciled_witness:
  "alarms (fst (handleUpdateSettings (reminderUpdate (Some True) (Some [''09:00'']))
             \<lparr> storedSettings = None, alarms = [dailyResetAlarm] \<rparr>)) =
     [dailyResetAlarm, reminderAlarm ''09:00'']
   \<and> length (filter (\<lambda>a. name a = ''reminder-09:00'')
       (alarms (fst (handleUpdateSettings (reminderUpdate (Some True) (Some [''09:00'']))
                  \<lparr> storedSettings = None, alarms = [dailyResetAlarm] \<rparr>)))) = 1
   \<and> filter isReminderAlarm
       (alarms (fst (handleUpdateSettings (reminderUpdate (Some False) None)
          (fst (handleUpdateSettings (reminderUpdate (Some True) (Some [''09:00'']))
                  \<lparr> storedSettings = None, alarms = [dailyResetAlarm] \<rparr>))))) = []"
proof -
  let ?c0 = "\<lparr> storedSettings = None, alarms = [dailyResetAlarm] \<rparr>"
  let ?on = "reminderUpdate (Some True) (Some [''09:00''])"
  let ?c1 = "fst (handleUpdateSettings ?on ?c0)"
  let ?s1 = "snd (handleUpdateSettings ?on ?c0)"
  have touched: "reminder_opt ?on \<noteq> None"
    by (simp add: reminderUpdate_def)
  have s1: "enabled (reminder ?s1)" "times (reminder ?s1) = [''09:00'']"
    by (simp_all add: handleUpdateSettings_def Let_def deepMerge_def mergeReminder_def
        reminderUpdate_def)
  note inst = reminder_alarms_reconciled
    [where p = ?on and c = ?c0 and settings = ?s1 and registered = "[dailyResetAlarm]"]
  have a: "alarms ?c1 = reconcile ?s1 [dailyResetAlarm]"
    using inst touched by simp
  have b: "length (filter (\<lambda>a. name a = DAILY_REMINDER_PREFIX @ ''09:00'')
             (reconcile ?s1 [dailyResetAlarm])) = 1"
    using inst s1 by simp
  have c: "filter isReminderAlarm
       (alarms (fst (handleUpdateSettings (reminderUpdate (Some False) None) ?c1))) = []"
    using reminder_alarms_reconciled [where c = ?c1 and ts = None] by blast
  have d: "reconcile ?s1 [dailyResetAlarm] = [dailyResetAlarm, reminderAlarm ''09:00'']"
    using s1
    by (simp add: reconcile_def Let_def cancelByPrefix_def createAlarm_def dailyResetAlarm_def
        reminderAlarm_def DAILY_RESET_def DAILY_REMINDER_PREFIX_def startsWith_def)
  from a b c d show ?thesis
    by (simp add: DAILY_REMINDER_PREFIX_def)
qed

end
